theory Spec2Isabelle
  imports Complex_Main "HOL-Library.Word" "HOL-Library.Sublist"
begin

section \<open>Bounded allocator: \<^verbatim>\<open>LimitedAllocator\<close>\<close>

text \<open>
  \<^verbatim>\<open>size_t\<close> of the 64-bit build (the build for which \<^verbatim>\<open>sizeof(void*) >= 8\<close> holds in
  \<^verbatim>\<open>IsolateHandle::New\<close>). Addition, subtraction and multiplication wrap modulo \<open>2 ^ 64\<close>,
  as unsigned arithmetic does in C++.
\<close>

type_synonym size_t = "64 word"

record LimitedAllocator =
  limit :: size_t
  v8_heap :: size_t
  my_heap :: size_t
  next_check :: size_t

text \<open>The constructor \<^verbatim>\<open>LimitedAllocator(size_t limit)\<close>.\<close>

definition LimitedAllocator_new :: "size_t \<Rightarrow> LimitedAllocator" where
  "LimitedAllocator_new bytes =
     \<lparr>limit = bytes, v8_heap = 1024 * 1024 * 4, my_heap = 0, next_check = 1024 * 1024\<rparr>"

text \<open>
  \<^verbatim>\<open>bool Check(const size_t length)\<close>. The argument \<open>total_heap_size\<close> is what
  \<^verbatim>\<open>GetHeapStatistics\<close> reports at the moment of the call; it is read only in the branch
  that crosses the \<open>next_check\<close> watermark. The first stage is the body of the outer
  \<^verbatim>\<open>if\<close>: \<open>Inl\<close> is its early \<^verbatim>\<open>return false\<close>.
\<close>

definition Check :: "size_t \<Rightarrow> size_t \<Rightarrow> LimitedAllocator \<Rightarrow> bool \<times> LimitedAllocator" where
  "Check len total_heap_size a =
     (case (if v8_heap a + my_heap a + len > next_check a
            then (let a1 = a\<lparr>v8_heap := total_heap_size\<rparr>
                  in if v8_heap a1 + my_heap a1 + len > limit a1
                     then Inl a1
                     else Inr (a1\<lparr>next_check := v8_heap a1 + my_heap a1 + len + 1024 * 1024\<rparr>))
            else Inr a)
      of Inl a1 \<Rightarrow> (False, a1)
       | Inr a2 \<Rightarrow>
           if v8_heap a2 + my_heap a2 + len > limit a2
           then (False, a2)
           else (True, a2\<lparr>my_heap := my_heap a2 + len\<rparr>))"

text \<open>
  \<^verbatim>\<open>Allocate\<close> and \<^verbatim>\<open>AllocateUninitialized\<close>. The C library is outside the program:
  \<open>libc_result\<close> is what \<^verbatim>\<open>calloc(length, 1)\<close> (or \<^verbatim>\<open>malloc(length)\<close>) returns when it
  is called, \<open>None\<close> for the null pointer. It is called only after \<open>Check\<close> has succeeded.
\<close>

definition Allocate :: "size_t \<Rightarrow> size_t \<Rightarrow> 'p option \<Rightarrow> LimitedAllocator \<Rightarrow> 'p option \<times> LimitedAllocator" where
  "Allocate len total_heap_size libc_result a =
     (case Check len total_heap_size a of
        (True, a') \<Rightarrow> (libc_result, a')
      | (False, a') \<Rightarrow> (None, a'))"

definition AllocateUninitialized :: "size_t \<Rightarrow> size_t \<Rightarrow> 'p option \<Rightarrow> LimitedAllocator \<Rightarrow> 'p option \<times> LimitedAllocator" where
  "AllocateUninitialized len total_heap_size libc_result a =
     (case Check len total_heap_size a of
        (True, a') \<Rightarrow> (libc_result, a')
      | (False, a') \<Rightarrow> (None, a'))"

text \<open>\<^verbatim>\<open>void Free(void* data, size_t length)\<close>: both counters go down by \<open>length\<close>.\<close>

definition Free :: "size_t \<Rightarrow> LimitedAllocator \<Rightarrow> LimitedAllocator" where
  "Free len a = a\<lparr>my_heap := my_heap a - len, next_check := next_check a - len\<rparr>"

definition GetAllocatedSize :: "LimitedAllocator \<Rightarrow> size_t" where
  "GetAllocatedSize a = my_heap a"

text \<open>
  A history of calls made by the engine on one allocator, and the allocator state it
  leaves behind. Each allocation carries the heap statistic and the C library's answer
  of its moment.
\<close>

datatype 'p allocator_call =
    Call_Allocate size_t size_t "'p option"
  | Call_AllocateUninitialized size_t size_t "'p option"
  | Call_Free size_t

fun after_call :: "LimitedAllocator \<Rightarrow> 'p allocator_call \<Rightarrow> LimitedAllocator" where
  "after_call a (Call_Allocate len st r) = snd (Allocate len st r a)"
| "after_call a (Call_AllocateUninitialized len st r) = snd (AllocateUninitialized len st r a)"
| "after_call a (Call_Free len) = Free len a"

definition after_calls :: "'p allocator_call list \<Rightarrow> LimitedAllocator \<Rightarrow> LimitedAllocator" where
  "after_calls cs a = foldl after_call a cs"

section \<open>JavaScript values read through the API\<close>

text \<open>
  A JavaScript number is an IEEE double: a finite value other than the negative zero
  (every such double is a real number, \<open>Finite 0\<close> being the positive zero), the negative
  zero, a NaN or an infinity (\<open>Infinity True\<close> is the positive one).
\<close>

datatype double = Finite real | Negative_zero | NaN | Infinity bool

text \<open>
  A C string ends at its first NUL. The source copies every JavaScript string it keeps
  through \<^verbatim>\<open>*String::Utf8Value(...)\<close>, a \<^verbatim>\<open>char*\<close>, into a \<^verbatim>\<open>std::string\<close>: the copy
  is the part of the string before its first NUL character.
\<close>

definition c_str :: "string \<Rightarrow> string" where
  "c_str s = takeWhile (\<lambda>c. c \<noteq> CHR 0x00) s"

type_synonym bytes = "8 word list"

text \<open>
  \<^verbatim>\<open>ExternalCopy\<close> values. Only the array-buffer subclass is told apart, as the
  \<^verbatim>\<open>dynamic_pointer_cast<ExternalCopyArrayBuffer>\<close> of the source does.
\<close>

datatype ExternalCopy = ExternalCopyArrayBuffer bytes | ExternalCopyOther

datatype js_value =
    JS_Undefined
  | JS_Boolean bool
  | JS_Number double
  | JS_String string
  | JS_ExternalCopyHandle ExternalCopy
  | JS_Object "(string \<times> js_value) list"

type_synonym js_object = "(string \<times> js_value) list"

datatype js_error = js_generic_error string | js_type_error string | js_runtime_error

text \<open>\<^verbatim>\<open>Unmaybe(options->Get(context, name))\<close> on an object of plain data properties.\<close>

definition Get :: "js_object \<Rightarrow> string \<Rightarrow> js_value" where
  "Get options name = (case map_of options name of None \<Rightarrow> JS_Undefined | Some v \<Rightarrow> v)"

definition IsUndefined :: "js_value \<Rightarrow> bool" where
  "IsUndefined v = (case v of JS_Undefined \<Rightarrow> True | _ \<Rightarrow> False)"

definition IsNumber :: "js_value \<Rightarrow> bool" where
  "IsNumber v = (case v of JS_Number _ \<Rightarrow> True | _ \<Rightarrow> False)"

definition IsString :: "js_value \<Rightarrow> bool" where
  "IsString v = (case v of JS_String _ \<Rightarrow> True | _ \<Rightarrow> False)"

definition IsTrue :: "js_value \<Rightarrow> bool" where
  "IsTrue v = (case v of JS_Boolean b \<Rightarrow> b | _ \<Rightarrow> False)"

definition IsObject :: "js_value \<Rightarrow> bool" where
  "IsObject v = (case v of JS_Object _ \<Rightarrow> True | JS_ExternalCopyHandle _ \<Rightarrow> True | _ \<Rightarrow> False)"

text \<open>\<^verbatim>\<open>IsInt32\<close>: an integer of 32 bits; the negative zero is not one.\<close>

definition IsInt32 :: "js_value \<Rightarrow> bool" where
  "IsInt32 v =
     (case v of
        JS_Number (Finite r) \<Rightarrow> r = of_int \<lfloor>r\<rfloor> \<and> - 2147483648 \<le> r \<and> r \<le> 2147483647
      | _ \<Rightarrow> False)"

definition Int32_Value :: "js_value \<Rightarrow> int" where
  "Int32_Value v = (case v of JS_Number (Finite r) \<Rightarrow> \<lfloor>r\<rfloor> | _ \<Rightarrow> 0)"

text \<open>\<^verbatim>\<open>script_handle.As<Object>()\<close>: the data properties of an object.\<close>

definition As_Object :: "js_value \<Rightarrow> js_object" where
  "As_Object v = (case v of JS_Object ps \<Rightarrow> ps | _ \<Rightarrow> [])"

text \<open>Sequencing of steps that may throw: the first \<open>Inl\<close> ends the computation.\<close>

definition and_then :: "'e + 'a \<Rightarrow> ('a \<Rightarrow> 'e + 'b) \<Rightarrow> 'e + 'b" where
  "and_then m f = (case m of Inl e \<Rightarrow> Inl e | Inr x \<Rightarrow> f x)"

section \<open>\<^verbatim>\<open>ScriptOriginHolder\<close>\<close>

record ScriptOriginHolder =
  filename :: string
  columnOffset :: int
  lineOffset :: int

definition read_filename :: "js_object \<Rightarrow> ScriptOriginHolder \<Rightarrow> js_error + ScriptOriginHolder" where
  "read_filename options h =
     (let v = Get options ''filename'' in
      if \<not> IsUndefined v
      then (case v of
              JS_String s \<Rightarrow> Inr (h\<lparr>filename := c_str s\<rparr>)
            | _ \<Rightarrow> Inl (js_type_error ''`filename` must be a string''))
      else Inr h)"

definition read_columnOffset :: "js_object \<Rightarrow> ScriptOriginHolder \<Rightarrow> js_error + ScriptOriginHolder" where
  "read_columnOffset options h =
     (let v = Get options ''columnOffset'' in
      if \<not> IsUndefined v
      then (if \<not> IsInt32 v
            then Inl (js_type_error ''`columnOffset` must be an integer'')
            else Inr (h\<lparr>columnOffset := Int32_Value v\<rparr>))
      else Inr h)"

definition read_lineOffset :: "js_object \<Rightarrow> ScriptOriginHolder \<Rightarrow> js_error + ScriptOriginHolder" where
  "read_lineOffset options h =
     (let v = Get options ''lineOffset'' in
      if \<not> IsUndefined v
      then (if \<not> IsInt32 v
            then Inl (js_type_error ''`lineOffset` must be an integer'')
            else Inr (h\<lparr>lineOffset := Int32_Value v\<rparr>))
      else Inr h)"

text \<open>The constructor \<^verbatim>\<open>ScriptOriginHolder(MaybeLocal<Object> maybe_options)\<close>.\<close>

definition ScriptOriginHolder_new :: "js_object option \<Rightarrow> js_error + ScriptOriginHolder" where
  "ScriptOriginHolder_new maybe_options =
     (let h = \<lparr>filename = ''<isolated-vm>'', columnOffset = 0, lineOffset = 0\<rparr> in
      case maybe_options of
        None \<Rightarrow> Inr h
      | Some options \<Rightarrow>
          and_then (read_filename options h) (\<lambda>h1.
          and_then (read_columnOffset options h1) (\<lambda>h2.
          read_lineOffset options h2)))"

section \<open>\<^verbatim>\<open>IsolateHandle::New\<close>\<close>

text \<open>
  The cast \<^verbatim>\<open>(size_t)maybe_memory_limit.As<Number>()->Value()\<close>. C++ truncates the double
  towards zero; when the truncated value is not a value of \<^verbatim>\<open>size_t\<close> (a negative number
  at or below \<open>-1\<close>, a number at or above \<open>2 ^ 64\<close>, a NaN or an infinity) the behaviour of
  the conversion is undefined, which is \<open>None\<close> here. The negative zero truncates to 0.
\<close>

definition trunc_toward_zero :: "real \<Rightarrow> int" where
  "trunc_toward_zero r = (if 0 \<le> r then \<lfloor>r\<rfloor> else \<lceil>r\<rceil>)"

definition size_t_of_double :: "double \<Rightarrow> size_t option" where
  "size_t_of_double d =
     (case d of
        Finite r \<Rightarrow>
          (if 0 \<le> trunc_toward_zero r \<and> trunc_toward_zero r < 2 ^ 64
           then Some (word_of_int (trunc_toward_zero r))
           else None)
      | Negative_zero \<Rightarrow> Some 0
      | _ \<Rightarrow> None)"

text \<open>The cast \<^verbatim>\<open>(int)\<close> of a \<^verbatim>\<open>size_t\<close>: the low 32 bits, read as two's complement.\<close>

definition int_of_size_t :: "size_t \<Rightarrow> int" where
  "int_of_size_t n = sint (ucast n :: 32 word)"

text \<open>What a call leaves: a value, a thrown JavaScript error, or undefined behaviour.\<close>

datatype 'a completion = Returned 'a | Threw js_error | Undefined_behaviour

text \<open>
  What \<^verbatim>\<open>New\<close> hands to \<^verbatim>\<open>IsolateEnvironment::New\<close>: the resource constraints, the
  allocator, the snapshot and the limit in megabytes; and whether the inspector agent is
  enabled afterwards.
\<close>

record IsolateHandle =
  max_semi_space_size :: int
  max_old_space_size :: int
  allocator_ptr :: LimitedAllocator
  snapshot_blob :: "bytes option"
  memory_limit :: size_t
  inspector :: bool

definition read_memoryLimit :: "js_object \<Rightarrow> size_t completion" where
  "read_memoryLimit options =
     (let maybe_memory_limit = Get options ''memoryLimit'' in
      if \<not> IsUndefined maybe_memory_limit
      then (case maybe_memory_limit of
              JS_Number d \<Rightarrow>
                (case size_t_of_double d of
                   None \<Rightarrow> Undefined_behaviour
                 | Some m \<Rightarrow>
                     if m < 8
                     then Threw (js_generic_error ''`memoryLimit` must be at least 8'')
                     else Returned m)
            | _ \<Rightarrow> Threw (js_generic_error ''`memoryLimit` must be a number''))
      else Returned 128)"

definition read_snapshot :: "js_object \<Rightarrow> (bytes option) completion" where
  "read_snapshot options =
     (let snapshot_handle = Get options ''snapshot'' in
      if \<not> IsUndefined snapshot_handle
      then (case snapshot_handle of
              JS_ExternalCopyHandle (ExternalCopyArrayBuffer b) \<Rightarrow> Returned (Some b)
            | _ \<Rightarrow> Threw (js_type_error ''`snapshot` must be an ExternalCopy to ArrayBuffer''))
      else Returned None)"

text \<open>Lines 198 to 208: the constraints, the allocator and the handle.\<close>

definition make_isolate :: "size_t \<Rightarrow> bytes option \<Rightarrow> bool \<Rightarrow> IsolateHandle" where
  "make_isolate mem blob insp =
     \<lparr>max_semi_space_size =
        (let e = min 4 (int_of_size_t (mem div 128)) in if e < 0 then 0 else 2 ^ nat e),
      max_old_space_size = int_of_size_t (mem * 2),
      allocator_ptr = LimitedAllocator_new (mem * 1024 * 1024),
      snapshot_blob = blob,
      memory_limit = mem,
      inspector = insp\<rparr>"

definition New :: "js_object option \<Rightarrow> IsolateHandle completion" where
  "New maybe_options =
     (case maybe_options of
        None \<Rightarrow> Returned (make_isolate 128 None False)
      | Some options \<Rightarrow>
          (case read_memoryLimit options of
             Undefined_behaviour \<Rightarrow> Undefined_behaviour
           | Threw e \<Rightarrow> Threw e
           | Returned mem \<Rightarrow>
               (case read_snapshot options of
                  Undefined_behaviour \<Rightarrow> Undefined_behaviour
                | Threw e \<Rightarrow> Threw e
                | Returned blob \<Rightarrow>
                    Returned (make_isolate mem blob (IsTrue (Get options ''inspector''))))))"

section \<open>Disposal of a context: \<^verbatim>\<open>ContextDeleter\<close> and \<^verbatim>\<open>ContextDisposer\<close>\<close>

text \<open>
  The task the deleter builds: \<^verbatim>\<open>ContextDisposer(context, has_inspector)\<close>, owning the
  pointer to the persistent handle.
\<close>

datatype 'c Runnable = ContextDisposer 'c bool

text \<open>
  What a call of the deleter does to the outside: a call of
  \<^verbatim>\<open>IsolateHolder::ScheduleTask(task, bool, bool)\<close> on the locked holder, with its two
  flags in the order of the call, or the destruction of the \<^verbatim>\<open>unique_ptr\<close> that still
  owns the pointer when the function returns.
\<close>

datatype ('h, 'c) deleter_effect =
    ScheduleTask 'h "'c Runnable" bool bool
  | unique_ptr_deleted 'c

text \<open>
  \<^verbatim>\<open>ContextDeleter::operator()\<close>. \<open>isolate_lock\<close> is the result of \<^verbatim>\<open>isolate.lock()\<close>
  on the weak pointer: \<open>None\<close> when the holder is gone. When the task is built the
  \<^verbatim>\<open>unique_ptr\<close> is moved into it, and nothing is left to destroy.
\<close>

definition ContextDeleter_call :: "'h option \<Rightarrow> bool \<Rightarrow> 'c \<Rightarrow> ('h, 'c) deleter_effect list" where
  "ContextDeleter_call isolate_lock has_inspector ptr =
     (case isolate_lock of
        Some isolate_ref \<Rightarrow> [ScheduleTask isolate_ref (ContextDisposer ptr has_inspector) True False]
      | None \<Rightarrow> [unique_ptr_deleted ptr])"

text \<open>
  The calls \<^verbatim>\<open>ContextDisposer::Run\<close> makes, in order. A persistent handle is \<open>Some c\<close>
  while it refers to the context \<open>c\<close> and \<open>None\<close> once reset; \<open>Persistent_Reset\<close>
  records what the handle referred to when \<^verbatim>\<open>Reset()\<close> was called on it.
\<close>

datatype 'c disposer_event =
    HandleScope_enter
  | Local_New "'c option"
  | Persistent_Reset "'c option"
  | ContextDestroyed "'c option"
  | HandleScope_exit
  | ContextDisposedNotification

text \<open>\<^verbatim>\<open>ContextDisposer::Run\<close>: the events, and the persistent handle afterwards.\<close>

definition ContextDisposer_Run :: "bool \<Rightarrow> 'c option \<Rightarrow> 'c disposer_event list \<times> 'c option" where
  "ContextDisposer_Run has_inspector persistent =
     (case (if has_inspector
            then (let local = persistent
                  in ([HandleScope_enter, Local_New local, Persistent_Reset persistent,
                       ContextDestroyed local, HandleScope_exit], None))
            else ([], persistent))
      of (events, persistent1) \<Rightarrow>
           (events @ [Persistent_Reset persistent1, ContextDisposedNotification], None))"

text \<open>
  The order the specification words: the inspector is told of the destruction of \<open>c\<close>,
  and no \<^verbatim>\<open>Reset()\<close> has released \<open>c\<close> before that.
\<close>

definition spec_notified_before_release :: "'c \<Rightarrow> 'c disposer_event list \<Rightarrow> bool" where
  "spec_notified_before_release c events =
     (ContextDestroyed (Some c) \<in> set events
      \<and> Persistent_Reset (Some c) \<notin> set (takeWhile (\<lambda>e. e \<noteq> ContextDestroyed (Some c)) events))"

section \<open>\<^verbatim>\<open>CompileScriptRunner\<close>\<close>

record ('h, 'u) CompileScriptRunner =
  isolate :: 'h
  code_string :: string
  script_origin_holder :: ScriptOriginHolder
  cached_data_blob :: "bytes option"
  produce_cached_data :: bool
  script :: "'u option"
  supplied_cached_data :: bool
  cached_data_rejected :: bool

definition read_cachedData :: "js_object \<Rightarrow> js_error + bytes option" where
  "read_cachedData options =
     (let cached_data_handle = Get options ''cachedData'' in
      if \<not> IsUndefined cached_data_handle
      then (case cached_data_handle of
              JS_ExternalCopyHandle (ExternalCopyArrayBuffer b) \<Rightarrow> Inr (Some b)
            | _ \<Rightarrow> Inl (js_type_error ''`cachedData` must be an ExternalCopy to ArrayBuffer''))
      else Inr None)"

text \<open>The constructor: phase 1, on the caller's thread.\<close>

definition CompileScriptRunner_new ::
  "'h \<Rightarrow> string \<Rightarrow> js_object option \<Rightarrow> js_error + ('h, 'u) CompileScriptRunner" where
  "CompileScriptRunner_new isolate_arg code_handle maybe_options =
     and_then (ScriptOriginHolder_new maybe_options) (\<lambda>origin.
       (let r = \<lparr>isolate = isolate_arg, code_string = [], script_origin_holder = origin,
                 cached_data_blob = None, produce_cached_data = False, script = None,
                 supplied_cached_data = False, cached_data_rejected = False\<rparr>
        in and_then
             (case maybe_options of
                None \<Rightarrow> Inr r
              | Some options \<Rightarrow>
                  and_then (read_cachedData options) (\<lambda>blob.
                    Inr (r\<lparr>cached_data_blob := blob,
                           produce_cached_data := IsTrue (Get options ''produceCachedData'')\<rparr>)))
             (\<lambda>r1. Inr (r1\<lparr>code_string := code_handle\<rparr>))))"

datatype CompileOptions = kNoCompileOptions | kProduceCodeCache | kConsumeCodeCache

text \<open>\<^verbatim>\<open>ScriptCompiler::CachedData\<close>: the bytes, and the flag the compiler sets.\<close>

record CachedData =
  data :: bytes
  rejected :: bool

text \<open>
  The compiler is outside the program. A call of \<^verbatim>\<open>ScriptCompiler::CompileUnboundScript\<close>
  on a source either throws a value, or gives an unbound script and leaves in the source
  what \<^verbatim>\<open>source.GetCachedData()\<close> returns afterwards (\<open>None\<close> for the null pointer).
\<close>

datatype ('v, 'u) compile_outcome = Compile_threw 'v | Compiled 'u "CachedData option"

type_synonym ('v, 'u) compiler =
  "string \<Rightarrow> ScriptOriginHolder \<Rightarrow> bytes option \<Rightarrow> CompileOptions \<Rightarrow> ('v, 'u) compile_outcome"

text \<open>How phase 2 can end without a result.\<close>

datatype 'v phase2_failure = Script_threw 'v | Assertion_failed | Null_dereference

text \<open>Lines 353 to 360: the compile options and the cache handed to the compiler.\<close>

definition compile_options :: "('h, 'u) CompileScriptRunner \<Rightarrow> CompileOptions" where
  "compile_options r =
     (if cached_data_blob r \<noteq> None then kConsumeCodeCache
      else if produce_cached_data r then kProduceCodeCache
      else kNoCompileOptions)"

definition Phase2 ::
  "('v, 'u) compiler \<Rightarrow> ('h, 'u) CompileScriptRunner \<Rightarrow> 'v phase2_failure + ('h, 'u) CompileScriptRunner" where
  "Phase2 CompileUnboundScript r =
     (case CompileUnboundScript (code_string r) (script_origin_holder r) (cached_data_blob r)
             (compile_options r) of
        Compile_threw e \<Rightarrow> Inl (Script_threw e)
      | Compiled u source_cached_data \<Rightarrow>
          (let r1 = r\<lparr>script := Some u\<rparr> in
           if cached_data_blob r1 \<noteq> None
           then (case source_cached_data of
                   None \<Rightarrow> Inl Null_dereference
                 | Some cd \<Rightarrow>
                     Inr (r1\<lparr>supplied_cached_data := True,
                             cached_data_rejected := rejected cd,
                             cached_data_blob := None\<rparr>))
           else if produce_cached_data r1
           then (case source_cached_data of
                   None \<Rightarrow> Inl Assertion_failed
                 | Some cd \<Rightarrow> Inr (r1\<lparr>cached_data_blob := Some (data cd)\<rparr>))
           else Inr r1))"

text \<open>The \<^verbatim>\<open>Script\<close> object of phase 3, with the two properties it may carry.\<close>

record ('h, 'u) ScriptHandle =
  script_isolate :: 'h
  unbound_script :: "'u option"
  cachedDataRejected :: "bool option"
  cachedData :: "ExternalCopy option"

definition Phase3 :: "('h, 'u) CompileScriptRunner \<Rightarrow> ('h, 'u) ScriptHandle" where
  "Phase3 r =
     (let val = \<lparr>script_isolate = isolate r, unbound_script = script r,
                 cachedDataRejected = None, cachedData = None\<rparr>
      in if supplied_cached_data r
         then val\<lparr>cachedDataRejected := Some (cached_data_rejected r)\<rparr>
         else (case cached_data_blob r of
                 Some b \<Rightarrow> val\<lparr>cachedData := Some (ExternalCopyArrayBuffer b)\<rparr>
               | None \<Rightarrow> val))"

section \<open>\<^verbatim>\<open>IsolateHandle::CreateInspectorSession\<close>\<close>

datatype 'e SessionHandle = SessionHandle 'e

text \<open>
  \<open>current_holder\<close> is \<^verbatim>\<open>IsolateEnvironment::GetCurrentHolder()\<close>, \<open>this_isolate\<close> the
  holder of the handle the method is called on, \<open>GetIsolate\<close> its environment (\<open>None\<close>
  once disposed) and \<open>GetInspectorAgent\<close> that environment's agent (\<open>None\<close> for
  \<^verbatim>\<open>nullptr\<close>).
\<close>

definition CreateInspectorSession ::
  "'h \<Rightarrow> 'h \<Rightarrow> ('h \<Rightarrow> 'e option) \<Rightarrow> ('e \<Rightarrow> 'a option) \<Rightarrow> js_error + 'e SessionHandle" where
  "CreateInspectorSession current_holder this_isolate GetIsolate GetInspectorAgent =
     (if current_holder = this_isolate
      then Inl (js_generic_error ''An isolate is not debuggable from within itself'')
      else (case GetIsolate this_isolate of
              None \<Rightarrow> Inl (js_generic_error ''Isolate is diposed'')
            | Some env \<Rightarrow>
                if GetInspectorAgent env = None
                then Inl (js_generic_error ''Inspector is not enabled for this isolate'')
                else Inr (SessionHandle env)))"

section \<open>\<^verbatim>\<open>IsolateHandle::CreateSnapshot\<close>\<close>

text \<open>
  The own property names of the \<^verbatim>\<open>scripts\<close> array, in the order \<^verbatim>\<open>GetOwnPropertyNames\<close>
  lists them, each with its value. \<^verbatim>\<open>ToArrayIndex\<close> gives nothing on a name that is not
  an array index, and \<^verbatim>\<open>Unmaybe\<close> throws then.
\<close>

datatype js_key = Index nat | Name string

text \<open>
  Lines 466 to 481: the loop that copies the scripts out of the caller's heap, the code of
  each as a C string.
\<close>

fun copy_scripts :: "nat \<Rightarrow> (js_key \<times> js_value) list \<Rightarrow> js_error + (string \<times> ScriptOriginHolder) list" where
  "copy_scripts ii [] = Inr []"
| "copy_scripts ii ((Name n, script_handle) # keys) = Inl js_runtime_error"
| "copy_scripts ii ((Index key, script_handle) # keys) =
     (if key \<noteq> ii then Inl (js_type_error ''Invalid `scripts` array'')
      else if \<not> IsObject script_handle then Inl (js_type_error ''`scripts` should be array of objects'')
      else (case Get (As_Object script_handle) ''code'' of
              JS_String code \<Rightarrow>
                and_then (ScriptOriginHolder_new (Some (As_Object script_handle))) (\<lambda>script_origin.
                and_then (copy_scripts (Suc ii) keys) (\<lambda>scripts.
                Inr ((c_str code, script_origin) # scripts)))
            | _ \<Rightarrow> Inl (js_type_error ''`code` property is required'')))"

text \<open>The two contexts of the snapshot isolate: \<^verbatim>\<open>context\<close> and \<^verbatim>\<open>context_dirty\<close>.\<close>

datatype snapshot_context = Default_context | Dirty_context

text \<open>
  The calls into the engine between the creation of the contexts and the blob, each with
  the context it is made against and the source it concerns:
  \<^verbatim>\<open>ScriptCompiler::Compile\<close>, \<^verbatim>\<open>compiled_script->Run\<close>,
  \<^verbatim>\<open>unbound_script->BindToCurrentContext()->Run\<close>, \<^verbatim>\<open>ContextDisposedNotification\<close>,
  \<^verbatim>\<open>AddContext\<close> and \<^verbatim>\<open>CreateBlob\<close>.
\<close>

datatype v8_call =
    Compile snapshot_context string ScriptOriginHolder
  | Run snapshot_context string ScriptOriginHolder
  | BindToCurrentContext_Run snapshot_context string ScriptOriginHolder
  | Isolate_ContextDisposedNotification
  | AddContext snapshot_context
  | CreateBlob

text \<open>
  The engine is outside the program: whether a call throws, and which value, may depend
  on every call made before it. \<open>throws calls c\<close> is the value thrown by the call \<open>c\<close>
  made after \<open>calls\<close>, \<open>None\<close> when it returns. A call that throws surfaces as a
  \<^verbatim>\<open>js_runtime_error\<close> (through \<^verbatim>\<open>Unmaybe\<close> and \<^verbatim>\<open>RunWithAnnotatedErrors\<close>), carrying the
  calls made so far.
\<close>

type_synonym 'v engine = "v8_call list \<Rightarrow> v8_call \<Rightarrow> 'v option"

definition v8 :: "'v engine \<Rightarrow> v8_call \<Rightarrow> v8_call list \<Rightarrow> ('v \<times> v8_call list) + v8_call list" where
  "v8 throws c calls =
     (case throws calls c of
        Some e \<Rightarrow> Inl (e, calls @ [c])
      | None \<Rightarrow> Inr (calls @ [c]))"

text \<open>Lines 504 to 521: the loop over the scripts.\<close>

fun run_scripts ::
  "'v engine \<Rightarrow> (string \<times> ScriptOriginHolder) list \<Rightarrow> v8_call list \<Rightarrow> ('v \<times> v8_call list) + v8_call list" where
  "run_scripts throws [] calls = Inr calls"
| "run_scripts throws ((code, script_origin) # scripts) calls =
     and_then (v8 throws (Compile Default_context code script_origin) calls) (\<lambda>calls1.
     and_then (v8 throws (Run Default_context code script_origin) calls1) (\<lambda>calls2.
     and_then (v8 throws (BindToCurrentContext_Run Dirty_context code script_origin) calls2) (\<lambda>calls3.
     run_scripts throws scripts calls3)))"

text \<open>Lines 522 to 530: the warmup script, with the origin of an empty options object.\<close>

definition warmup_origin :: ScriptOriginHolder where
  "warmup_origin = \<lparr>filename = ''<isolated-vm>'', columnOffset = 0, lineOffset = 0\<rparr>"

definition run_warmup :: "'v engine \<Rightarrow> string \<Rightarrow> v8_call list \<Rightarrow> ('v \<times> v8_call list) + v8_call list" where
  "run_warmup throws warmup_script calls =
     (if length warmup_script \<noteq> 0
      then and_then (v8 throws (Compile Dirty_context warmup_script warmup_origin) calls) (\<lambda>calls1.
           v8 throws (Run Dirty_context warmup_script warmup_origin) calls1)
      else Inr calls)"

text \<open>Lines 500 to 533: the body of the \<^verbatim>\<open>try\<close> block.\<close>

definition try_block ::
  "'v engine \<Rightarrow> (string \<times> ScriptOriginHolder) list \<Rightarrow> string \<Rightarrow> ('v \<times> v8_call list) + v8_call list" where
  "try_block throws scripts warmup_script =
     and_then (run_scripts throws scripts []) (\<lambda>calls1.
     and_then (run_warmup throws warmup_script calls1) (\<lambda>calls2.
     Inr (calls2 @ [Isolate_ContextDisposedNotification, AddContext Default_context])))"

text \<open>How \<^verbatim>\<open>CreateSnapshot\<close> fails: a C++ exception of the module, or
  \<^verbatim>\<open>ThrowException(error->CopyInto())\<close> on the copy of the value a script threw.\<close>

datatype 'c snapshot_failure = Threw_error js_error | ThrowException 'c

text \<open>
  Lines 541 to 556, for the blob the engine serialises after the calls made
  (\<open>snapshot\<close> gives its bytes, \<open>raw_size\<close> being their number).
\<close>

definition export_snapshot :: "(v8_call list \<Rightarrow> bytes) \<Rightarrow> v8_call list \<Rightarrow> 'c snapshot_failure + ExternalCopy" where
  "export_snapshot snapshot calls =
     (let blob = snapshot (calls @ [CreateBlob]) in
      if length blob = 0
      then Inl (Threw_error (js_generic_error ''Failure creating snapshot''))
      else Inr (ExternalCopyArrayBuffer blob))"

text \<open>
  Lines 487 to 556, after the scripts are copied. \<open>CopyIfPrimitiveOrError\<close> is the
  helper of \<^verbatim>\<open>ExternalCopy\<close>, whose code is not part of the sources: it returns a shared
  pointer, \<open>None\<close> when null. The result comes with the calls made into the engine.
\<close>

definition build_snapshot ::
  "'v engine \<Rightarrow> ('v \<Rightarrow> 'c option) \<Rightarrow> (v8_call list \<Rightarrow> bytes) \<Rightarrow>
   (string \<times> ScriptOriginHolder) list \<Rightarrow> string \<Rightarrow> ('c snapshot_failure + ExternalCopy) \<times> v8_call list" where
  "build_snapshot throws CopyIfPrimitiveOrError snapshot scripts warmup_script =
     (case try_block throws scripts warmup_script of
        Inl (exception, calls) \<Rightarrow>
          (case CopyIfPrimitiveOrError exception of
             Some error \<Rightarrow> (Inl (ThrowException error), calls)
           | None \<Rightarrow> (export_snapshot snapshot calls, calls @ [CreateBlob]))
      | Inr calls \<Rightarrow> (export_snapshot snapshot calls, calls @ [CreateBlob]))"

text \<open>
  Lines 482 to 485: the warmup script, copied as a C string, and empty when none is given.
\<close>

definition copy_warmup :: "string option \<Rightarrow> string" where
  "copy_warmup warmup_handle = (case warmup_handle of None \<Rightarrow> [] | Some w \<Rightarrow> c_str w)"

text \<open>
  The whole function: what the caller gets, and the calls made into the engine of the
  snapshot isolate. No such call is made when the copy of the scripts throws.
\<close>

definition CreateSnapshot ::
  "'v engine \<Rightarrow> ('v \<Rightarrow> 'c option) \<Rightarrow> (v8_call list \<Rightarrow> bytes) \<Rightarrow>
   (js_key \<times> js_value) list \<Rightarrow> string option \<Rightarrow> ('c snapshot_failure + ExternalCopy) \<times> v8_call list" where
  "CreateSnapshot throws CopyIfPrimitiveOrError snapshot script_handles warmup_handle =
     (case copy_scripts 0 script_handles of
        Inl e \<Rightarrow> (Inl (Threw_error e), [])
      | Inr scripts \<Rightarrow>
          build_snapshot throws CopyIfPrimitiveOrError snapshot scripts (copy_warmup warmup_handle))"

text \<open>
  The own properties of the JavaScript array \<open>[v0, v1, ...]\<close>: the indices from 0, in
  order, each with its element.
\<close>

definition js_array :: "js_value list \<Rightarrow> (js_key \<times> js_value) list" where
  "js_array vs = map (\<lambda>(i, v). (Index i, v)) (enumerate 0 vs)"

text \<open>
  The sequence of engine calls the specification words for a build in which nothing
  throws: each script, in order, compiled and run once against the default context and
  its unbound form run against the dirty one; then a non-empty warmup script compiled and
  run against the dirty context.
\<close>

definition spec_script_calls :: "string \<times> ScriptOriginHolder \<Rightarrow> v8_call list" where
  "spec_script_calls s =
     [Compile Default_context (fst s) (snd s), Run Default_context (fst s) (snd s),
      BindToCurrentContext_Run Dirty_context (fst s) (snd s)]"

definition spec_warmup_calls :: "string \<Rightarrow> v8_call list" where
  "spec_warmup_calls w =
     (if w = [] then []
      else [Compile Dirty_context w warmup_origin, Run Dirty_context w warmup_origin])"

definition spec_snapshot_calls :: "(string \<times> ScriptOriginHolder) list \<Rightarrow> string \<Rightarrow> v8_call list" where
  "spec_snapshot_calls scripts w = concat (map spec_script_calls scripts) @ spec_warmup_calls w"

text \<open>
  A sequence of engine calls made one after the other stops at the first that throws:
  \<open>first_throw throws calls cs\<close> is the value thrown and the calls made up to and
  including the throwing one, \<open>None\<close> when all of \<open>cs\<close> return.
\<close>

fun first_throw :: "'v engine \<Rightarrow> v8_call list \<Rightarrow> v8_call list \<Rightarrow> ('v \<times> v8_call list) option" where
  "first_throw throws calls [] = None"
| "first_throw throws calls (c # cs) =
     (case throws calls c of
        Some e \<Rightarrow> Some (e, calls @ [c])
      | None \<Rightarrow> first_throw throws (calls @ [c]) cs)"

definition run_calls :: "'v engine \<Rightarrow> v8_call list \<Rightarrow> v8_call list \<Rightarrow> ('v \<times> v8_call list) + v8_call list" where
  "run_calls throws calls cs =
     (case first_throw throws calls cs of Some x \<Rightarrow> Inl x | None \<Rightarrow> Inr (calls @ cs))"

section \<open>Properties of the bounded allocator\<close>

lemma Check_limit: "limit (snd (Check len st a)) = limit a"
  by (simp add: Check_def Let_def)

lemma after_call_limit: "limit (after_call a c) = limit a"
  by (cases c) (simp_all add: Allocate_def AllocateUninitialized_def Free_def Check_limit
        split: prod.splits bool.splits, (metis Check_limit snd_conv)+)

lemma after_calls_limit: "limit (after_calls cs a) = limit a"
  unfolding after_calls_def
  by (induction cs arbitrary: a) (simp_all add: after_call_limit)

lemma AllocateUninitialized_Allocate: "AllocateUninitialized len st libc a = Allocate len st libc a"
  by (simp add: AllocateUninitialized_def Allocate_def)

text \<open>
  One call of \<open>Check\<close>, read in natural numbers: when the three summands do not wrap
  around, a sum above the limit is refused and leaves the counter alone, and an accepted
  request leaves the sum of the two counters within the limit.
\<close>

lemma Check_no_overflow:
  assumes "Check len st a = (ok, a')"
    and "unat (v8_heap a') + unat (my_heap a) + unat len < 2 ^ 64"
  shows "(unat (limit a) < unat (v8_heap a') + unat (my_heap a) + unat len
            \<longrightarrow> \<not> ok \<and> my_heap a' = my_heap a)
       \<and> (ok \<longrightarrow> unat (v8_heap a') + unat (my_heap a') \<le> unat (limit a)
                  \<and> my_heap a' = my_heap a + len)"
  using assms
  by (auto simp: Check_def Let_def word_less_nat_alt unat_word_ariths split: if_splits)

text \<open>
  Where nothing wraps around the limit is enforced. For every limit \<open>L\<close> and every history
  \<open>cs\<close> of calls on an allocator created with that limit, take a further request of \<open>len\<close>
  bytes, with the engine heap estimate in force when it is decided (\<open>v8_heap\<close> after the
  call: refreshed from the heap statistic when the watermark is crossed, the cached one
  otherwise). If estimate, tracked bytes and \<open>len\<close> add up without wrapping around
  \<^verbatim>\<open>size_t\<close>, then a sum above \<open>L\<close> makes the request return the null pointer and leaves the
  tracked bytes unchanged, and after a request that returns a pointer estimate plus tracked
  bytes is at most \<open>L\<close>. The limit itself never changes.
\<close>

theorem Allocate_within_limit_unless_overflow:
  assumes "a = after_calls cs (LimitedAllocator_new L)"
    and "Allocate len st libc a = (res, a')"
    and "unat (v8_heap a') + unat (my_heap a) + unat len < 2 ^ 64"
  shows "limit a' = L
       \<and> (unat L < unat (v8_heap a') + unat (my_heap a) + unat len
            \<longrightarrow> res = None \<and> my_heap a' = my_heap a)
       \<and> (res \<noteq> None \<longrightarrow> unat (v8_heap a') + unat (my_heap a') \<le> unat L)"
proof -
  obtain ok where ck: "Check len st a = (ok, a')" and res: "res = (if ok then libc else None)"
    using assms(2) by (auto simp: Allocate_def split: prod.splits bool.splits)
  have lim: "limit a = L"
    using assms(1) by (simp add: after_calls_limit LimitedAllocator_new_def)
  have "limit a' = limit a"
    using Check_limit [of len st a] ck by simp
  with Check_no_overflow [OF ck assms(3)] lim res show ?thesis
    by auto
qed

text \<open>
  On an 8 MB allocator that has served and freed one megabyte, while the engine reports a
  4 MB heap, a request of 8 MB is refused and one of 1 MB is served.
\<close>

theorem Allocate_within_limit_witness:
  "fst (Allocate 8388608 4194304 (Some (0::nat))
          (after_calls [Call_Allocate 1048576 4194304 (Some (0::nat)), Call_Free 1048576]
             (LimitedAllocator_new 8388608))) = None
   \<and> unat (v8_heap (snd (Allocate 1048576 4194304 (Some (0::nat))
          (after_calls [Call_Allocate 1048576 4194304 (Some (0::nat)), Call_Free 1048576]
             (LimitedAllocator_new 8388608)))))
      + unat (my_heap (snd (Allocate 1048576 4194304 (Some (0::nat))
          (after_calls [Call_Allocate 1048576 4194304 (Some (0::nat)), Call_Free 1048576]
             (LimitedAllocator_new 8388608)))))
      \<le> unat (8388608 :: size_t)"
proof -
  let ?cs = "[Call_Allocate 1048576 4194304 (Some (0::nat)), Call_Free 1048576]"
  let ?a = "after_calls ?cs (LimitedAllocator_new 8388608)"
  have a: "?a = \<lparr>limit = 8388608, v8_heap = 4194304, my_heap = 0, next_check = 5242880\<rparr>"
    by (simp add: after_calls_def Allocate_def Check_def Free_def LimitedAllocator_new_def)
  have big: "Allocate 8388608 4194304 (Some (0::nat)) ?a
               = (None, \<lparr>limit = 8388608, v8_heap = 4194304, my_heap = 0, next_check = 5242880\<rparr>)"
    by (simp add: a Allocate_def Check_def)
  have small: "Allocate 1048576 4194304 (Some (0::nat)) ?a
               = (Some 0, \<lparr>limit = 8388608, v8_heap = 4194304, my_heap = 1048576, next_check = 5242880\<rparr>)"
    by (simp add: a Allocate_def Check_def)
  have big_fits: "unat (v8_heap \<lparr>limit = 8388608, v8_heap = 4194304, my_heap = 0, next_check = 5242880\<rparr>)
                    + unat (my_heap ?a) + unat (8388608 :: size_t) < 2 ^ 64"
    by (simp add: a)
  have small_fits: "unat (v8_heap \<lparr>limit = 8388608, v8_heap = 4194304, my_heap = 1048576, next_check = 5242880\<rparr>)
                    + unat (my_heap ?a) + unat (1048576 :: size_t) < 2 ^ 64"
    by (simp add: a)
  from Allocate_within_limit_unless_overflow [OF refl big big_fits]
       Allocate_within_limit_unless_overflow [OF refl small small_fits]
  show ?thesis
    by (simp add: big small)
qed

text \<open>
  Claim C2, on a fresh allocator of 8 MB with an engine heap of 4 MB. A first request of
  \<open>2 ^ 64 - 4 MB\<close> bytes makes the sum wrap around to 0: \<open>Check\<close> accepts it and counts it,
  although the C library then has no memory to give and the caller gets the null pointer.
  A second request, of 6 MB, is then served: with the 4 MB of the engine heap it puts
  10 MB on an allocator limited to 8 MB, of which the allocator counts 2 MB as tracked.
\<close>

theorem Allocate_overflow_two_calls:
  "fst (Allocate 18446744073705357312 4194304 (None :: nat option) (LimitedAllocator_new 8388608)) = None
   \<and> my_heap (snd (Allocate 18446744073705357312 4194304 (None :: nat option) (LimitedAllocator_new 8388608)))
       = 18446744073705357312
   \<and> fst (Allocate 6291456 4194304 (Some (0::nat))
            (snd (Allocate 18446744073705357312 4194304 (None :: nat option) (LimitedAllocator_new 8388608))))
       = Some 0
   \<and> unat (limit (snd (Allocate 6291456 4194304 (Some (0::nat))
            (snd (Allocate 18446744073705357312 4194304 (None :: nat option) (LimitedAllocator_new 8388608))))))
       < unat (v8_heap (snd (Allocate 6291456 4194304 (Some (0::nat))
            (snd (Allocate 18446744073705357312 4194304 (None :: nat option) (LimitedAllocator_new 8388608))))))
         + unat (6291456 :: size_t)
   \<and> my_heap (snd (Allocate 6291456 4194304 (Some (0::nat))
            (snd (Allocate 18446744073705357312 4194304 (None :: nat option) (LimitedAllocator_new 8388608)))))
       = 2097152"
proof -
  have first: "Allocate 18446744073705357312 4194304 (None :: nat option) (LimitedAllocator_new 8388608)
                 = (None, \<lparr>limit = 8388608, v8_heap = 4194304, my_heap = 18446744073705357312,
                           next_check = 1048576\<rparr>)"
    by (simp add: Allocate_def Check_def LimitedAllocator_new_def)
  have second: "Allocate 6291456 4194304 (Some (0::nat))
                  \<lparr>limit = 8388608, v8_heap = 4194304, my_heap = 18446744073705357312,
                   next_check = 1048576\<rparr>
                 = (Some 0, \<lparr>limit = 8388608, v8_heap = 4194304, my_heap = 2097152,
                             next_check = 7340032\<rparr>)"
    by (simp add: Allocate_def Check_def)
  show ?thesis
    by (simp add: first second)
qed

lemma Check_zero:
  "Check 0 st a = (v8_heap (snd (Check 0 st a)) + my_heap a \<le> limit a, snd (Check 0 st a))
   \<and> my_heap (snd (Check 0 st a)) = my_heap a"
  by (auto simp: Check_def Let_def not_less split: if_splits)

text \<open>
  Claim C7, as amended. In every state of the allocator a request of length zero returns
  what the C library returns exactly when the engine heap estimate in force (refreshed
  when the watermark is crossed) plus the tracked bytes, added in \<^verbatim>\<open>size_t\<close>, is at most
  the limit, which includes the states where it equals the limit; when that sum is above
  the limit the request returns the null pointer. The tracked bytes are unchanged either
  way.
\<close>

theorem Allocate_zero_length:
  "(v8_heap (snd (Allocate 0 st libc a)) + my_heap a \<le> limit a \<longrightarrow> fst (Allocate 0 st libc a) = libc)
   \<and> (limit a < v8_heap (snd (Allocate 0 st libc a)) + my_heap a \<longrightarrow> fst (Allocate 0 st libc a) = None)
   \<and> my_heap (snd (Allocate 0 st libc a)) = my_heap a"
proof -
  obtain ok a' where ck: "Check 0 st a = (ok, a')"
    by (cases "Check 0 st a")
  with Check_zero [of st a] have "ok = (v8_heap a' + my_heap a \<le> limit a)" "my_heap a' = my_heap a"
    by simp_all
  with ck show ?thesis
    by (auto simp: Allocate_def)
qed

text \<open>
  At the limit exactly (4 MB of engine heap and 4 MB tracked, of 8 MB) the empty request
  is served.
\<close>

theorem Allocate_zero_length_witness:
  "fst (Allocate 0 4194304 (Some (0::nat))
          \<lparr>limit = 8388608, v8_heap = 4194304, my_heap = 4194304, next_check = 16777216\<rparr>) = Some 0"
proof -
  let ?a = "\<lparr>limit = 8388608, v8_heap = 4194304, my_heap = 4194304, next_check = 16777216\<rparr>"
  have at_limit: "v8_heap (snd (Allocate 0 4194304 (Some (0::nat)) ?a)) + my_heap ?a \<le> limit ?a"
    by (simp add: Allocate_def Check_def)
  from Allocate_zero_length [of 4194304 "Some (0::nat)" ?a] at_limit show ?thesis
    by blast
qed

text \<open>
  Claim C7 as it is worded fails once the engine heap has outgrown the limit: on a fresh
  8 MB allocator, with the engine reporting a heap of 9 MB, the empty request is refused.
\<close>

theorem Allocate_zero_length_counterexample:
  "fst (Allocate 0 9437184 (Some (0::nat)) (LimitedAllocator_new 8388608)) = None"
  by (simp add: Allocate_def Check_def LimitedAllocator_new_def)

section \<open>Properties of \<^verbatim>\<open>IsolateHandle::New\<close>\<close>

text \<open>Without options, and without the \<^verbatim>\<open>memoryLimit\<close> option, the limit is 128.\<close>

lemma New_no_options: "New None = Returned (make_isolate 128 None False)"
  by (simp add: New_def)

lemma read_memoryLimit_absent:
  "IsUndefined (Get options ''memoryLimit'') \<Longrightarrow> read_memoryLimit options = Returned 128"
  by (simp add: read_memoryLimit_def)

lemma make_isolate_default_limit:
  "limit (allocator_ptr (make_isolate 128 blob insp)) = 128 * 1024 * 1024"
  by (simp add: make_isolate_def LimitedAllocator_new_def)

text \<open>A \<^verbatim>\<open>memoryLimit\<close> that is given and is not a number is refused.\<close>

lemma read_memoryLimit_not_number:
  "\<not> IsUndefined (Get options ''memoryLimit'') \<Longrightarrow> \<not> IsNumber (Get options ''memoryLimit'')
   \<Longrightarrow> read_memoryLimit options = Threw (js_generic_error ''`memoryLimit` must be a number'')"
  by (cases "Get options ''memoryLimit''")
     (simp_all add: read_memoryLimit_def IsUndefined_def IsNumber_def)

text \<open>A number between \<open>-1\<close> and 8, both excluded, truncates to less than 8 and is refused.\<close>

lemma size_t_of_double_small:
  assumes "- 1 < x" "x < 8"
  shows "\<exists>m. size_t_of_double (Finite x) = Some m \<and> m < 8"
proof -
  have t: "0 \<le> trunc_toward_zero x \<and> trunc_toward_zero x < 8"
    using assms unfolding trunc_toward_zero_def by (auto simp: floor_less_iff le_ceiling_iff)
  then have "(word_of_int (trunc_toward_zero x) :: size_t) < 8"
    by (simp add: word_less_alt uint_word_of_int take_bit_int_eq_self)
  with t show ?thesis
    by (simp add: size_t_of_double_def)
qed

lemma read_memoryLimit_below_floor:
  assumes "Get options ''memoryLimit'' = JS_Number (Finite x)" "- 1 < x" "x < 8"
  shows "read_memoryLimit options = Threw (js_generic_error ''`memoryLimit` must be at least 8'')"
  using size_t_of_double_small [OF assms(2,3)] assms(1)
  by (auto simp: read_memoryLimit_def IsUndefined_def)

text \<open>A number from 8 up to the range of \<^verbatim>\<open>size_t\<close> is accepted, truncated.\<close>

lemma read_memoryLimit_accepted:
  assumes "Get options ''memoryLimit'' = JS_Number (Finite x)" "8 \<le> x" "x < 2 ^ 64"
  shows "read_memoryLimit options = Returned (word_of_int \<lfloor>x\<rfloor>)"
proof -
  have t: "trunc_toward_zero x = \<lfloor>x\<rfloor>" "8 \<le> \<lfloor>x\<rfloor>" "\<lfloor>x\<rfloor> < 2 ^ 64"
    using assms(2,3) unfolding trunc_toward_zero_def by (auto simp: le_floor_iff floor_less_iff)
  then have "\<not> (word_of_int \<lfloor>x\<rfloor> :: size_t) < 8"
    by (simp add: word_less_alt uint_word_of_int take_bit_int_eq_self)
  with t assms(1) show ?thesis
    by (simp add: read_memoryLimit_def IsUndefined_def size_t_of_double_def)
qed

text \<open>An error of the memory limit is the result of \<open>New\<close>: nothing is constructed.\<close>

lemma New_Threw_memoryLimit:
  "read_memoryLimit options = Threw e \<Longrightarrow> New (Some options) = Threw e"
  by (simp add: New_def)

text \<open>
  Claim C8 at \<^verbatim>\<open>{ memoryLimit: -1 }\<close>, a limit below the floor. The source casts the double
  to \<^verbatim>\<open>size_t\<close> before it compares with 8, and the cast of \<open>-1\<close> has no defined result:
  the call does not end in the error the claim words.
\<close>

theorem New_negative_memoryLimit:
  "New (Some [(''memoryLimit'', JS_Number (Finite (- 1)))]) = Undefined_behaviour"
  by (simp add: New_def read_memoryLimit_def Get_def IsUndefined_def size_t_of_double_def
        trunc_toward_zero_def)

section \<open>Properties of the disposal of a context\<close>

text \<open>
  Claim C1, as amended. The deleter never resets the native reference itself. When the
  weak reference to the holder cannot be upgraded it schedules nothing (the pointer's
  owner is destroyed on return, and that is all); otherwise its one effect is a call of
  \<^verbatim>\<open>ScheduleTask\<close> on the owning holder with the disposal task, the second argument
  (run inline) \<open>True\<close> and the third argument \<open>False\<close>.
\<close>

theorem ContextDeleter_schedules_disposer:
  "ContextDeleter_call (Some h) has_inspector ptr
     = [ScheduleTask h (ContextDisposer ptr has_inspector) True False]
   \<and> ContextDeleter_call None has_inspector ptr = [unique_ptr_deleted ptr]"
  by (simp add: ContextDeleter_call_def)

text \<open>
  Claim C1 as it is worded has both flags true; the call made has the third argument
  false.
\<close>

theorem ContextDeleter_flags_counterexample:
  "ContextDeleter_call (Some (1::nat)) True (2::nat)
     \<noteq> [ScheduleTask 1 (ContextDisposer 2 True) True True]"
  by (simp add: ContextDeleter_call_def)

text \<open>
  Claim C3, as amended. With \<open>has_inspector\<close> the task opens a handle scope, takes a
  local handle on the context, resets the persistent handle, and then tells the inspector
  agent of the destruction through the local handle; after the scope it calls \<^verbatim>\<open>Reset()\<close>
  once more, on the handle that is empty by then, and sends the disposal notification.
  Without \<open>has_inspector\<close> it resets the persistent handle and sends the disposal
  notification. In both cases the persistent handle is empty afterwards.
\<close>

theorem ContextDisposer_Run_order:
  "ContextDisposer_Run True (Some c) =
     ([HandleScope_enter, Local_New (Some c), Persistent_Reset (Some c), ContextDestroyed (Some c),
       HandleScope_exit, Persistent_Reset None, ContextDisposedNotification], None)
   \<and> ContextDisposer_Run False (Some c) =
     ([Persistent_Reset (Some c), ContextDisposedNotification], None)"
  by (simp add: ContextDisposer_Run_def Let_def)

text \<open>
  Claim C3 as it is worded puts the notification before the release of the persistent
  handle; in the run of the task the release comes first.
\<close>

theorem ContextDisposer_Run_counterexample:
  "\<not> spec_notified_before_release (7::nat) (fst (ContextDisposer_Run True (Some 7)))"
  by (simp add: ContextDisposer_Run_def spec_notified_before_release_def Let_def)

section \<open>Properties of \<^verbatim>\<open>CompileScriptRunner\<close>\<close>

lemma CompileScriptRunner_new_Some:
  assumes "CompileScriptRunner_new holder code (Some options) = Inr (r :: ('h, 'u) CompileScriptRunner)"
  shows "read_cachedData options = Inr (cached_data_blob r)"
    and "produce_cached_data r = IsTrue (Get options ''produceCachedData'')"
    and "code_string r = code"
    and "supplied_cached_data r = False"
    and "ScriptOriginHolder_new (Some options) = Inr (script_origin_holder r)"
  using assms
  by (auto simp: CompileScriptRunner_new_def and_then_def Let_def split: sum.splits)

lemma read_cachedData_supplied:
  assumes "read_cachedData options = Inr blob" "\<not> IsUndefined (Get options ''cachedData'')"
  shows "\<exists>b. blob = Some b \<and> Get options ''cachedData'' = JS_ExternalCopyHandle (ExternalCopyArrayBuffer b)"
  using assms
  by (auto simp: read_cachedData_def Let_def split: js_value.splits ExternalCopy.splits if_splits)

lemma Phase3_at_most_one:
  "cachedData (Phase3 r) = None \<or> cachedDataRejected (Phase3 r) = None"
  by (simp add: Phase3_def Let_def split: option.splits)

lemma Phase2_consume:
  assumes "cached_data_blob r \<noteq> None" "Phase2 compiler r = Inr r2"
  shows "supplied_cached_data r2 \<and> cached_data_blob r2 = None"
  using assms
  by (auto simp: Phase2_def Let_def split: compile_outcome.splits option.splits if_splits)

text \<open>
  Claim C4. For a call of \<^verbatim>\<open>compileScript\<close> whose options carry \<^verbatim>\<open>cachedData\<close> (phase 1
  has accepted them), whenever the compiler compiles the source, whether it has accepted
  or rejected the cache (the flag \<open>rejected\<close> of the cache it leaves in the source),
  phase 2 ends without an error and the \<^verbatim>\<open>Script\<close> object of phase 3 carries the compiled
  script and the property \<^verbatim>\<open>cachedDataRejected\<close> with the value of that flag.
\<close>

theorem cachedData_rejection_is_reported:
  assumes "CompileScriptRunner_new holder code (Some options) = Inr r"
    and "\<not> IsUndefined (Get options ''cachedData'')"
    and "compiler (code_string r) (script_origin_holder r) (cached_data_blob r) (compile_options r)
           = Compiled u (Some cd)"
  shows "\<exists>r2. Phase2 compiler r = Inr r2
            \<and> cachedDataRejected (Phase3 r2) = Some (rejected cd)
            \<and> unbound_script (Phase3 r2) = Some u"
proof -
  from CompileScriptRunner_new_Some(1) [OF assms(1)] assms(2)
  obtain b where b: "cached_data_blob r = Some b"
    using read_cachedData_supplied by fastforce
  with assms(3) show ?thesis
    by (simp add: Phase2_def Phase3_def Let_def)
qed

text \<open>A compile with a cache that the compiler rejects.\<close>

theorem cachedData_rejection_is_reported_witness:
  "\<exists>r2. Phase2 (\<lambda>code origin cached opts. Compiled (3::nat) (Some \<lparr>data = [1, 2], rejected = True\<rparr>)
                   :: (nat, nat) compile_outcome)
           \<lparr>isolate = (1::nat), code_string = ''x = 1'',
            script_origin_holder = \<lparr>filename = ''<isolated-vm>'', columnOffset = 0, lineOffset = 0\<rparr>,
            cached_data_blob = Some [1, 2], produce_cached_data = False, script = None,
            supplied_cached_data = False, cached_data_rejected = False\<rparr> = Inr r2
        \<and> cachedDataRejected (Phase3 r2) = Some True
        \<and> unbound_script (Phase3 r2) = Some 3"
proof -
  let ?options = "[(''cachedData'', JS_ExternalCopyHandle (ExternalCopyArrayBuffer [1, 2]))]"
  let ?compiler = "\<lambda>code origin cached opts. Compiled (3::nat) (Some \<lparr>data = [1, 2], rejected = True\<rparr>)
                     :: (nat, nat) compile_outcome"
  let ?r = "\<lparr>isolate = (1::nat), code_string = ''x = 1'',
             script_origin_holder = \<lparr>filename = ''<isolated-vm>'', columnOffset = 0, lineOffset = 0\<rparr>,
             cached_data_blob = Some [1, 2], produce_cached_data = False, script = None :: nat option,
             supplied_cached_data = False, cached_data_rejected = False\<rparr>"
  have made: "CompileScriptRunner_new (1::nat) ''x = 1'' (Some ?options) = Inr ?r"
    by (simp add: CompileScriptRunner_new_def ScriptOriginHolder_new_def read_filename_def
          read_columnOffset_def read_lineOffset_def read_cachedData_def and_then_def Get_def
          IsUndefined_def IsTrue_def)
  have given: "\<not> IsUndefined (Get ?options ''cachedData'')"
    by (simp add: Get_def IsUndefined_def)
  have compiled: "?compiler (code_string ?r) (script_origin_holder ?r) (cached_data_blob ?r) (compile_options ?r)
                    = Compiled 3 (Some \<lparr>data = [1, 2], rejected = True\<rparr>)"
    by simp
  from cachedData_rejection_is_reported [OF made given compiled] show ?thesis
    by simp
qed

text \<open>
  Claim C10. For every call of \<^verbatim>\<open>compileScript\<close> that returns a \<^verbatim>\<open>Script\<close> object, the
  object carries at most one of \<^verbatim>\<open>cachedData\<close> and \<^verbatim>\<open>cachedDataRejected\<close>; and when
  \<^verbatim>\<open>cachedData\<close> is supplied, whatever \<^verbatim>\<open>produceCachedData\<close> says, the compiler is asked to
  consume the cache, and the object carries \<^verbatim>\<open>cachedDataRejected\<close> and no \<^verbatim>\<open>cachedData\<close>.
\<close>

theorem cachedData_takes_precedence:
  assumes "CompileScriptRunner_new holder code maybe_options = Inr r"
    and "Phase2 compiler r = Inr r2"
  shows "(cachedData (Phase3 r2) = None \<or> cachedDataRejected (Phase3 r2) = None)
       \<and> (\<forall>options. maybe_options = Some options \<and> \<not> IsUndefined (Get options ''cachedData'') \<longrightarrow>
            compile_options r = kConsumeCodeCache
            \<and> cachedData (Phase3 r2) = None
            \<and> cachedDataRejected (Phase3 r2) \<noteq> None)"
proof -
  have "compile_options r = kConsumeCodeCache \<and> cachedData (Phase3 r2) = None
          \<and> cachedDataRejected (Phase3 r2) \<noteq> None"
    if "maybe_options = Some options" "\<not> IsUndefined (Get options ''cachedData'')" for options
  proof -
    from CompileScriptRunner_new_Some(1) [OF assms(1) [unfolded that(1)]] that(2)
    obtain b where b: "cached_data_blob r = Some b"
      using read_cachedData_supplied by fastforce
    then have "supplied_cached_data r2"
      using Phase2_consume [OF _ assms(2)] by simp
    with b show ?thesis
      by (simp add: compile_options_def Phase3_def Let_def)
  qed
  with Phase3_at_most_one [of r2] show ?thesis
    by blast
qed

text \<open>Both options given, and a compiler that would attach a fresh cache if asked to.\<close>

theorem cachedData_takes_precedence_witness:
  "compile_options
     \<lparr>isolate = (1::nat), code_string = ''x = 1'',
      script_origin_holder = \<lparr>filename = ''<isolated-vm>'', columnOffset = 0, lineOffset = 0\<rparr>,
      cached_data_blob = Some [1, 2], produce_cached_data = True, script = None :: nat option,
      supplied_cached_data = False, cached_data_rejected = False\<rparr> = kConsumeCodeCache
   \<and> cachedData (Phase3
       \<lparr>isolate = (1::nat), code_string = ''x = 1'',
        script_origin_holder = \<lparr>filename = ''<isolated-vm>'', columnOffset = 0, lineOffset = 0\<rparr>,
        cached_data_blob = None, produce_cached_data = True, script = Some (3::nat),
        supplied_cached_data = True, cached_data_rejected = False\<rparr>) = None"
proof -
  let ?options = "[(''cachedData'', JS_ExternalCopyHandle (ExternalCopyArrayBuffer [1, 2])),
                   (''produceCachedData'', JS_Boolean True)]"
  let ?compiler = "\<lambda>code origin cached opts. Compiled (3::nat) (Some \<lparr>data = [4, 5, 6], rejected = False\<rparr>)
                     :: (nat, nat) compile_outcome"
  let ?r = "\<lparr>isolate = (1::nat), code_string = ''x = 1'',
             script_origin_holder = \<lparr>filename = ''<isolated-vm>'', columnOffset = 0, lineOffset = 0\<rparr>,
             cached_data_blob = Some [1, 2], produce_cached_data = True, script = None :: nat option,
             supplied_cached_data = False, cached_data_rejected = False\<rparr>"
  let ?r2 = "\<lparr>isolate = (1::nat), code_string = ''x = 1'',
              script_origin_holder = \<lparr>filename = ''<isolated-vm>'', columnOffset = 0, lineOffset = 0\<rparr>,
              cached_data_blob = None, produce_cached_data = True, script = Some (3::nat),
              supplied_cached_data = True, cached_data_rejected = False\<rparr>"
  have made: "CompileScriptRunner_new (1::nat) ''x = 1'' (Some ?options) = Inr ?r"
    by (simp add: CompileScriptRunner_new_def ScriptOriginHolder_new_def read_filename_def
          read_columnOffset_def read_lineOffset_def read_cachedData_def and_then_def Get_def
          IsUndefined_def IsTrue_def)
  have compiled: "Phase2 ?compiler ?r = Inr ?r2"
    by (simp add: Phase2_def compile_options_def)
  have given: "\<not> IsUndefined (Get ?options ''cachedData'')"
    by (simp add: Get_def IsUndefined_def)
  from cachedData_takes_precedence [OF made compiled] given show ?thesis
    by blast
qed

section \<open>Properties of \<^verbatim>\<open>IsolateHandle::CreateInspectorSession\<close>\<close>

text \<open>
  Claim C9. The call fails with an error of its own, and creates no session handle, in
  three cases, the earlier one winning whatever holds of the later ones: called from
  within the target isolate; else, the target isolate disposed; else, the target isolate
  without an inspector agent. The function schedules no task: its only result is the
  error or, in the one remaining case, the session handle.
\<close>

theorem CreateInspectorSession_fails_in_order:
  "(current = this_isolate \<longrightarrow>
      CreateInspectorSession current this_isolate gi ga
        = Inl (js_generic_error ''An isolate is not debuggable from within itself''))
   \<and> (current \<noteq> this_isolate \<and> gi this_isolate = None \<longrightarrow>
      CreateInspectorSession current this_isolate gi ga
        = Inl (js_generic_error ''Isolate is diposed''))
   \<and> (current \<noteq> this_isolate \<and> gi this_isolate = Some env \<and> ga env = None \<longrightarrow>
      CreateInspectorSession current this_isolate gi ga
        = Inl (js_generic_error ''Inspector is not enabled for this isolate''))
   \<and> (current \<noteq> this_isolate \<and> gi this_isolate = Some env \<and> ga env \<noteq> None \<longrightarrow>
      CreateInspectorSession current this_isolate gi ga = Inr (SessionHandle env))"
  by (simp add: CreateInspectorSession_def)

text \<open>
  The three failures, the first on an isolate that is also disposed and has no agent, the
  second on one whose agent cannot be asked for.
\<close>

theorem CreateInspectorSession_fails_in_order_witness:
  "CreateInspectorSession (1::nat) 1 (\<lambda>h. None :: nat option) (\<lambda>e. None :: nat option)
     = Inl (js_generic_error ''An isolate is not debuggable from within itself'')
   \<and> CreateInspectorSession (1::nat) 2 (\<lambda>h. None :: nat option) (\<lambda>e. None :: nat option)
     = Inl (js_generic_error ''Isolate is diposed'')
   \<and> CreateInspectorSession (1::nat) 2 (\<lambda>h. Some (5::nat)) (\<lambda>e. None :: nat option)
     = Inl (js_generic_error ''Inspector is not enabled for this isolate'')"
proof -
  have within: "(1::nat) = 1"
    by simp
  have disposed: "(1::nat) \<noteq> 2 \<and> (\<lambda>h::nat. None :: nat option) 2 = None"
    by simp
  have no_agent: "(1::nat) \<noteq> 2 \<and> (\<lambda>h::nat. Some (5::nat)) 2 = Some 5 \<and> (\<lambda>e::nat. None :: nat option) 5 = None"
    by simp
  from CreateInspectorSession_fails_in_order
         [where current = "1::nat" and this_isolate = 1 and gi = "\<lambda>h. None :: nat option"
            and ga = "\<lambda>e. None :: nat option" and env = 5] within
       CreateInspectorSession_fails_in_order
         [where current = "1::nat" and this_isolate = 2 and gi = "\<lambda>h. None :: nat option"
            and ga = "\<lambda>e. None :: nat option" and env = 5] disposed
       CreateInspectorSession_fails_in_order
         [where current = "1::nat" and this_isolate = 2 and gi = "\<lambda>h. Some (5::nat)"
            and ga = "\<lambda>e. None :: nat option" and env = 5] no_agent
  show ?thesis
    by blast
qed

section \<open>Properties of \<^verbatim>\<open>IsolateHandle::CreateSnapshot\<close>\<close>

text \<open>
  The loops of the source make the calls of the worded sequence one after the other,
  and stop at the first that throws.
\<close>

lemma run_calls_Nil: "run_calls throws calls [] = Inr calls"
  by (simp add: run_calls_def)

lemma run_calls_Cons:
  "run_calls throws calls (c # cs) = and_then (v8 throws c calls) (\<lambda>calls1. run_calls throws calls1 cs)"
  by (simp add: run_calls_def v8_def and_then_def split: option.splits)

lemma run_calls_append:
  "run_calls throws calls (cs @ ds)
     = and_then (run_calls throws calls cs) (\<lambda>calls1. run_calls throws calls1 ds)"
proof (induction cs arbitrary: calls)
  case Nil
  show ?case by (simp add: run_calls_Nil and_then_def)
next
  case (Cons c cs)
  show ?case
    by (simp add: run_calls_Cons Cons.IH and_then_def split: sum.splits)
qed

lemma run_scripts_run_calls:
  "run_scripts throws scripts calls = run_calls throws calls (concat (map spec_script_calls scripts))"
proof (induction scripts arbitrary: calls)
  case Nil
  show ?case by (simp add: run_calls_Nil)
next
  case (Cons s scripts)
  obtain code origin where s: "s = (code, origin)" by (cases s)
  show ?case
    by (simp add: s Cons.IH run_calls_append spec_script_calls_def run_calls_Cons run_calls_Nil
          and_then_def split: sum.splits)
qed

lemma run_warmup_run_calls:
  "run_warmup throws w calls = run_calls throws calls (spec_warmup_calls w)"
  by (simp add: run_warmup_def spec_warmup_calls_def run_calls_Cons run_calls_Nil and_then_def
        split: sum.splits)

lemma try_block_run_calls:
  "try_block throws scripts w =
     and_then (run_calls throws [] (spec_snapshot_calls scripts w))
       (\<lambda>calls. Inr (calls @ [Isolate_ContextDisposedNotification, AddContext Default_context]))"
  by (simp add: try_block_def spec_snapshot_calls_def run_scripts_run_calls run_warmup_run_calls
        run_calls_append and_then_def split: sum.splits)

lemma first_throw_Some:
  "first_throw throws calls cs = Some (e, calls') \<Longrightarrow>
     \<exists>pre c post. cs = pre @ c # post \<and> calls' = calls @ pre @ [c]
        \<and> throws (calls @ pre) c = Some e \<and> first_throw throws calls pre = None"
proof (induction cs arbitrary: calls)
  case Nil
  then show ?case by simp
next
  case (Cons d ds)
  show ?case
  proof (cases "throws calls d")
    case None
    with Cons.prems have "first_throw throws (calls @ [d]) ds = Some (e, calls')" by simp
    from Cons.IH [OF this] obtain pre c post where
      "ds = pre @ c # post" "calls' = (calls @ [d]) @ pre @ [c]"
      "throws ((calls @ [d]) @ pre) c = Some e" "first_throw throws (calls @ [d]) pre = None"
      by blast
    then have "d # ds = (d # pre) @ c # post \<and> calls' = calls @ (d # pre) @ [c]
        \<and> throws (calls @ (d # pre)) c = Some e \<and> first_throw throws calls (d # pre) = None"
      using None by simp
    then show ?thesis by blast
  next
    case (Some x)
    with Cons.prems have "d # ds = [] @ d # ds \<and> calls' = calls @ [] @ [d]
        \<and> throws (calls @ []) d = Some e \<and> first_throw throws calls [] = None"
      by simp
    then show ?thesis by blast
  qed
qed

lemma first_throw_None_iff:
  "first_throw throws calls cs = None
     \<longleftrightarrow> (\<forall>pre c post. cs = pre @ c # post \<longrightarrow> throws (calls @ pre) c = None)"
proof (induction cs arbitrary: calls)
  case Nil
  show ?case by simp
next
  case (Cons d ds)
  show ?case
  proof
    assume a: "first_throw throws calls (d # ds) = None"
    then have d: "throws calls d = None" and r: "first_throw throws (calls @ [d]) ds = None"
      by (auto split: option.splits)
    show "\<forall>pre c post. d # ds = pre @ c # post \<longrightarrow> throws (calls @ pre) c = None"
    proof (intro allI impI)
      fix pre c post assume e: "d # ds = pre @ c # post"
      show "throws (calls @ pre) c = None"
      proof (cases pre)
        case Nil
        with e d show ?thesis by simp
      next
        case (Cons p ps)
        with e have "p = d" "ds = ps @ c # post" by simp_all
        with r Cons.IH [of "calls @ [d]"] Cons show ?thesis by simp
      qed
    qed
  next
    assume a: "\<forall>pre c post. d # ds = pre @ c # post \<longrightarrow> throws (calls @ pre) c = None"
    then have "throws (calls @ []) d = None" by blast
    moreover have "first_throw throws (calls @ [d]) ds = None"
      unfolding Cons.IH
    proof (intro allI impI)
      fix pre c post assume "ds = pre @ c # post"
      then have "d # ds = (d # pre) @ c # post" by simp
      with a have "throws (calls @ (d # pre)) c = None" by blast
      then show "throws ((calls @ [d]) @ pre) c = None" by simp
    qed
    ultimately show "first_throw throws calls (d # ds) = None" by simp
  qed
qed

text \<open>A string without a NUL character is copied whole.\<close>

lemma c_str_no_NUL: "CHR 0x00 \<notin> set s \<Longrightarrow> c_str s = s"
  by (auto simp: c_str_def)

text \<open>
  The calls of the \<^verbatim>\<open>try\<close> block: the worded sequence and the two closing calls when it
  returns, and the sequence up to and including the throwing call when a call throws.
\<close>

lemma try_block_prefix:
  "(\<forall>calls. try_block throws scripts w = Inr calls \<longrightarrow>
       calls = spec_snapshot_calls scripts w @ [Isolate_ContextDisposedNotification, AddContext Default_context])
   \<and> (\<forall>e calls. try_block throws scripts w = Inl (e, calls) \<longrightarrow>
       prefix calls (spec_snapshot_calls scripts w) \<and> calls \<noteq> []
       \<and> throws (butlast calls) (last calls) = Some e)"
proof -
  let ?spec = "spec_snapshot_calls scripts w"
  let ?tail = "[Isolate_ContextDisposedNotification, AddContext Default_context]"
  have returned: "calls = ?spec @ ?tail" if "try_block throws scripts w = Inr calls" for calls
    using that
    by (auto simp: try_block_run_calls run_calls_def and_then_def split: option.splits sum.splits)
  have thrown: "prefix calls ?spec \<and> calls \<noteq> [] \<and> throws (butlast calls) (last calls) = Some e"
    if "try_block throws scripts w = Inl (e, calls)" for e calls
  proof -
    from that have "first_throw throws [] ?spec = Some (e, calls)"
      by (auto simp: try_block_run_calls run_calls_def and_then_def split: option.splits sum.splits)
    from first_throw_Some [OF this] obtain pre c post where
      "?spec = pre @ c # post" "calls = pre @ [c]" "throws pre c = Some e"
      by auto
    then show ?thesis
      by (simp add: prefix_def)
  qed
  from returned thrown show ?thesis
    by blast
qed

lemma build_snapshot_first_throw:
  "build_snapshot throws copy_error snapshot scripts w =
     (case first_throw throws [] (spec_snapshot_calls scripts w) of
        Some (e, calls) \<Rightarrow>
          (case copy_error e of
             Some c \<Rightarrow> (Inl (ThrowException c), calls)
           | None \<Rightarrow> (export_snapshot snapshot calls, calls @ [CreateBlob]))
      | None \<Rightarrow>
          (export_snapshot snapshot
             (spec_snapshot_calls scripts w @ [Isolate_ContextDisposedNotification, AddContext Default_context]),
           spec_snapshot_calls scripts w
             @ [Isolate_ContextDisposedNotification, AddContext Default_context, CreateBlob]))"
  by (simp add: build_snapshot_def try_block_run_calls run_calls_def and_then_def
        split: option.splits sum.splits)

text \<open>
  An array of objects, each with a string \<^verbatim>\<open>code\<close> and options of a script origin, is
  copied element by element, in order: the code as a C string, with the origin.
\<close>

lemma copy_scripts_dense:
  assumes "\<forall>(obj, code, origin) \<in> set items.
             Get obj ''code'' = JS_String code \<and> ScriptOriginHolder_new (Some obj) = Inr origin"
  shows "copy_scripts ii (map (\<lambda>(i, v). (Index i, v))
                            (enumerate ii (map (\<lambda>(obj, code, origin). JS_Object obj) items)))
           = Inr (map (\<lambda>(obj, code, origin). (c_str code, origin)) items)"
  using assms
proof (induction items arbitrary: ii)
  case Nil
  show ?case by simp
next
  case (Cons item items)
  obtain obj code origin where item: "item = (obj, code, origin)"
    by (cases item)
  from Cons.prems item have here: "Get obj ''code'' = JS_String code"
      "ScriptOriginHolder_new (Some obj) = Inr origin"
    and rest: "\<forall>(obj, code, origin) \<in> set items.
             Get obj ''code'' = JS_String code \<and> ScriptOriginHolder_new (Some obj) = Inr origin"
    by simp_all
  from Cons.IH [OF rest, of "Suc ii"] here show ?case
    by (simp add: item IsObject_def As_Object_def and_then_def)
qed

text \<open>
  The engine calls of \<^verbatim>\<open>CreateSnapshot\<close> on such an array and a warmup script: each script
  as copied, in submission order, compiled and run once against the default context, then
  its unbound form bound and run against the dirty context; then the warmup script as
  copied, when not empty, compiled and run against the dirty context only; then the
  disposal notification, \<^verbatim>\<open>AddContext\<close> of the default context and \<^verbatim>\<open>CreateBlob\<close>. When a call
  throws, the calls stop with it, but for a \<^verbatim>\<open>CreateBlob\<close> when the thrown value has no
  copy. For strings without a NUL character the scripts as copied are the scripts as
  supplied.
\<close>

lemma CreateSnapshot_engine_calls:
  assumes "\<forall>(obj, code, origin) \<in> set items.
             Get obj ''code'' = JS_String code \<and> ScriptOriginHolder_new (Some obj) = Inr origin"
  shows "snd (CreateSnapshot throws copy_error snapshot
                (js_array (map (\<lambda>(obj, code, origin). JS_Object obj) items)) warmup_handle)
         = (case first_throw throws []
                   (spec_snapshot_calls (map (\<lambda>(obj, code, origin). (c_str code, origin)) items)
                      (case warmup_handle of None \<Rightarrow> [] | Some w \<Rightarrow> c_str w)) of
              None \<Rightarrow>
                spec_snapshot_calls (map (\<lambda>(obj, code, origin). (c_str code, origin)) items)
                  (case warmup_handle of None \<Rightarrow> [] | Some w \<Rightarrow> c_str w)
                @ [Isolate_ContextDisposedNotification, AddContext Default_context, CreateBlob]
            | Some (e, calls) \<Rightarrow>
                (case copy_error e of Some c \<Rightarrow> calls | None \<Rightarrow> calls @ [CreateBlob]))"
  using copy_scripts_dense [OF assms, of 0]
  by (simp add: CreateSnapshot_def js_array_def build_snapshot_first_throw copy_warmup_def
        split: option.splits)

text \<open>
  What the caller gets, for scripts that were copied: the copy of the thrown value, thrown,
  when a call throws a value the helper \<^verbatim>\<open>CopyIfPrimitiveOrError\<close> has a copy of; and when no
  call throws, the error \<^verbatim>\<open>Failure creating snapshot\<close> for an empty image, the image as an
  array buffer otherwise.
\<close>

lemma CreateSnapshot_outcomes:
  assumes "copy_scripts 0 script_handles = Inr scripts"
  shows "(\<forall>e calls c.
            first_throw throws [] (spec_snapshot_calls scripts (copy_warmup warmup_handle)) = Some (e, calls)
            \<and> CopyIfPrimitiveOrError e = Some c \<longrightarrow>
            fst (CreateSnapshot throws CopyIfPrimitiveOrError snapshot script_handles warmup_handle)
              = Inl (ThrowException c))
       \<and> (first_throw throws [] (spec_snapshot_calls scripts (copy_warmup warmup_handle)) = None \<longrightarrow>
            fst (CreateSnapshot throws CopyIfPrimitiveOrError snapshot script_handles warmup_handle)
              = (let blob = snapshot (spec_snapshot_calls scripts (copy_warmup warmup_handle)
                                       @ [Isolate_ContextDisposedNotification, AddContext Default_context, CreateBlob])
                 in if blob = [] then Inl (Threw_error (js_generic_error ''Failure creating snapshot''))
                    else Inr (ExternalCopyArrayBuffer blob)))"
  using assms
  by (simp add: CreateSnapshot_def build_snapshot_first_throw export_snapshot_def Let_def)

text \<open>
  Claim C5, at a script and a warmup script that hold a NUL character, on an engine where
  nothing throws. The supplied script is \<^verbatim>\<open>x = 1;\<close>, a NUL, \<^verbatim>\<open>y = 2\<close>: what is compiled and
  run against the default context, and run again against the dirty one, is \<^verbatim>\<open>x = 1;\<close>
  alone. The supplied warmup script, a NUL followed by \<^verbatim>\<open>z = 3\<close>, is not empty, and it is
  neither compiled nor run against any context.
\<close>

theorem CreateSnapshot_cuts_at_NUL:
  "CreateSnapshot (\<lambda>calls c. None :: nat option) (\<lambda>e. Some e) (\<lambda>calls. [1, 2, 3])
        (js_array [JS_Object [(''code'', JS_String (''x = 1;'' @ [CHR 0x00] @ ''y = 2''))]])
        (Some (CHR 0x00 # ''z = 3''))
    = (Inr (ExternalCopyArrayBuffer [1, 2, 3]),
       [Compile Default_context ''x = 1;'' warmup_origin,
        Run Default_context ''x = 1;'' warmup_origin,
        BindToCurrentContext_Run Dirty_context ''x = 1;'' warmup_origin,
        Isolate_ContextDisposedNotification,
        AddContext Default_context,
        CreateBlob])"
  by (simp add: CreateSnapshot_def js_array_def enumerate_eq_zip IsObject_def As_Object_def Get_def c_str_def
        ScriptOriginHolder_new_def read_filename_def read_columnOffset_def read_lineOffset_def
        IsUndefined_def and_then_def warmup_origin_def copy_warmup_def build_snapshot_def try_block_def
        run_warmup_def v8_def export_snapshot_def)

text \<open>
  Claim C6, at a script that throws a plain object, with a helper that copies what is not
  an object and returns the null pointer for an object: the run of the script throws, no
  error is kept, the blob is created, and the caller gets a snapshot where the claim words
  an error carrying the thrown value.
\<close>

theorem CreateSnapshot_throw_yet_snapshot:
  "CreateSnapshot (\<lambda>calls c. case c of Run x code origin \<Rightarrow> Some (JS_Object []) | _ \<Rightarrow> None)
        (\<lambda>v. case v of JS_Object ps \<Rightarrow> None | _ \<Rightarrow> Some v) (\<lambda>calls. [1, 2, 3])
        (js_array [JS_Object [(''code'', JS_String ''throw {}'')]]) None
    = (Inr (ExternalCopyArrayBuffer [1, 2, 3]),
       [Compile Default_context ''throw {}'' warmup_origin,
        Run Default_context ''throw {}'' warmup_origin,
        CreateBlob])"
  by (simp add: CreateSnapshot_def js_array_def enumerate_eq_zip IsObject_def As_Object_def Get_def c_str_def
        ScriptOriginHolder_new_def read_filename_def read_columnOffset_def read_lineOffset_def
        IsUndefined_def and_then_def warmup_origin_def copy_warmup_def build_snapshot_def try_block_def
        run_warmup_def v8_def export_snapshot_def)

end
